theory Spec2Isabelle
  imports Main
begin

section \<open>The rule commands of \<^verbatim>\<open>cogs/rules.py\<close>\<close>

subsection \<open>Data\<close>

text \<open>
  Users, members, channels, guilds and messages are identified by their numeric ids.
  \<^verbatim>\<open>message.author != self.bot.user\<close> compares ids, so an author and the bot's user are
  modelled by their ids. A \<open>char\<close> stands for one character of a Python \<^verbatim>\<open>str\<close>.
\<close>

type_synonym user = nat

datatype discord_file = File string

record permissions =
  send_messages :: bool
  embed_links :: bool
  manage_messages :: bool

record guild =
  guild_id :: nat
  me :: user

record channel =
  channel_id :: nat
  channel_guild :: guild
  permissions_for :: "user \<Rightarrow> permissions"

record message =
  message_id :: nat
  author :: user
  guild :: "guild option"
  channel :: channel

record embed =
  title :: string
  description :: string
  colour :: "int option"

record command_context =
  ctx_channel :: channel
  ctx_author :: user

text \<open>
  The argument \<^verbatim>\<open>color: Optional[Union[Color, str]]\<close>: a native colour (its integer
  value) or a string.
\<close>

datatype color = Color int | Str string

text \<open>The attributes of the \<^verbatim>\<open>translations\<close> object that the cog reads.\<close>

datatype translation =
    rule | send_message | msg_sent | send_embed_title | send_embed_content
  | send_new_message | msg_edited | msg_deleted
  | could_not_send_message | msg_could_not_be_sent | invalid_color
  | could_not_send_embed | title_too_long | could_not_edit | cannot_edit_files
  | cannot_delete_dm | could_not_delete

text \<open>
  What a call to the platform or to a helper of \<^verbatim>\<open>util\<close> may raise. \<open>HTTPException\<close>
  is the class the module imports on line 2, \<^verbatim>\<open>http.client.HTTPException\<close>;
  \<open>Other_exception\<close> is any exception that is neither that nor \<^verbatim>\<open>discord.Forbidden\<close>.
\<close>

datatype raised = HTTPException | Forbidden | Other_exception nat

text \<open>
  How a command ends when it does not return: with the \<^verbatim>\<open>CommandError\<close> that it
  builds from an attribute of \<^verbatim>\<open>translations\<close> (the error carries the attribute; its
  message is the string that the table holds for it), with the \<^verbatim>\<open>ValueError\<close> of
  \<^verbatim>\<open>int\<close>, or with an exception of a call that the command does not catch.
\<close>

datatype error = CommandError translation | ValueError | Raised raised

subsection \<open>Calls to the platform and to the helpers\<close>

text \<open>
  Every awaited call of a command is recorded, with its arguments, in the order of the
  calls, also when the call raises. For \<^verbatim>\<open>Message.edit\<close> a keyword that is not given is \<open>None\<close> and a keyword
  given as \<^verbatim>\<open>None\<close> is \<open>Some None\<close>; the keywords are content, embed and files.
\<close>

datatype call =
    Ctx_send embed
  | Channel_send channel "string option" "discord_file list option" "embed option"
  | Message_edit message "string option option" "embed option option" "discord_file list option"
  | Message_delete message
  | Read_normal_message channel user bool
  | Read_complete_message message

text \<open>
  The surroundings of one invocation. The outcome of a call is looked up by the number
  of calls the invocation has issued before it, in the field for the kind of call:
  \<open>sends\<close> for \<^verbatim>\<open>ctx.send\<close> and \<^verbatim>\<open>channel.send\<close> (the message created, or an
  exception), \<open>edits\<close> for \<^verbatim>\<open>Message.edit\<close> and \<^verbatim>\<open>Message.delete\<close> (an exception,
  or none), \<open>prompts\<close> for \<^verbatim>\<open>read_normal_message\<close> (the text and files the invoker
  posts) and \<open>completes\<close> for \<^verbatim>\<open>read_complete_message\<close>. The string table behind
  \<^verbatim>\<open>translations\<close> and the result of \<^verbatim>\<open>get_colour(self)\<close> are parameters too.
\<close>

record env =
  bot_user :: user
  translated :: "translation \<Rightarrow> string"
  get_colour :: int
  sends :: "nat \<Rightarrow> raised + message"
  edits :: "nat \<Rightarrow> raised option"
  prompts :: "nat \<Rightarrow> raised + string \<times> discord_file list"
  completes :: "nat \<Rightarrow> raised + string \<times> discord_file list \<times> embed option"

text \<open>
  A command is a function from the calls issued so far to its result and the calls
  issued after it: \<open>Inl\<close> an error, \<open>Inr\<close> the value returned.
\<close>

type_synonym 'a action = "call list \<Rightarrow> (error + 'a) \<times> call list"

definition return :: "'a \<Rightarrow> 'a action" where
  "return x = (\<lambda>log. (Inr x, log))"

definition raise :: "error \<Rightarrow> 'a action" where
  "raise e = (\<lambda>log. (Inl e, log))"

definition and_then :: "'a action \<Rightarrow> ('a \<Rightarrow> 'b action) \<Rightarrow> 'b action" where
  "and_then m f = (\<lambda>log. case m log of
      (Inl e, log') \<Rightarrow> (Inl e, log')
    | (Inr x, log') \<Rightarrow> f x log')"

definition ctx_send :: "env \<Rightarrow> embed \<Rightarrow> message action" where
  "ctx_send E e = (\<lambda>log.
     (case sends E (length log) of Inl x \<Rightarrow> Inl (Raised x) | Inr m \<Rightarrow> Inr m,
      log @ [Ctx_send e]))"

definition channel_send ::
  "env \<Rightarrow> channel \<Rightarrow> string option \<Rightarrow> discord_file list option \<Rightarrow> embed option \<Rightarrow> message action" where
  "channel_send E ch content files e = (\<lambda>log.
     (case sends E (length log) of Inl x \<Rightarrow> Inl (Raised x) | Inr m \<Rightarrow> Inr m,
      log @ [Channel_send ch content files e]))"

definition message_edit ::
  "env \<Rightarrow> message \<Rightarrow> string option option \<Rightarrow> embed option option \<Rightarrow> discord_file list option
     \<Rightarrow> unit action" where
  "message_edit E m content e files = (\<lambda>log.
     (case edits E (length log) of Some x \<Rightarrow> Inl (Raised x) | None \<Rightarrow> Inr (),
      log @ [Message_edit m content e files]))"

definition message_delete :: "env \<Rightarrow> message \<Rightarrow> unit action" where
  "message_delete E m = (\<lambda>log.
     (case edits E (length log) of Some x \<Rightarrow> Inl (Raised x) | None \<Rightarrow> Inr (),
      log @ [Message_delete m]))"

definition read_normal_message ::
  "env \<Rightarrow> channel \<Rightarrow> user \<Rightarrow> bool \<Rightarrow> (string \<times> discord_file list) action" where
  "read_normal_message E ch u flag = (\<lambda>log.
     (case prompts E (length log) of Inl x \<Rightarrow> Inl (Raised x) | Inr r \<Rightarrow> Inr r,
      log @ [Read_normal_message ch u flag]))"

definition read_complete_message ::
  "env \<Rightarrow> message \<Rightarrow> (string \<times> discord_file list \<times> embed option) action" where
  "read_complete_message E m = (\<lambda>log.
     (case completes E (length log) of Inl x \<Rightarrow> Inl (Raised x) | Inr r \<Rightarrow> Inr r,
      log @ [Read_complete_message m]))"

text \<open>
  \<^verbatim>\<open>try: await channel.send(...) except (HTTPException, Forbidden): raise
  CommandError(translations.msg_could_not_be_sent)\<close>: the two classes named are caught,
  anything else goes on to the caller.
\<close>

definition except_send :: "'a action \<Rightarrow> 'a action" where
  "except_send m = (\<lambda>log. case m log of
      (Inl (Raised HTTPException), log') \<Rightarrow> (Inl (CommandError msg_could_not_be_sent), log')
    | (Inl (Raised Forbidden), log') \<Rightarrow> (Inl (CommandError msg_could_not_be_sent), log')
    | r \<Rightarrow> r)"

text \<open>The separator \<^verbatim>\<open>"\n\n"\<close> that the status embed's description grows by.\<close>

definition nn :: string where
  "nn = [CHR 0x0A, CHR 0x0A]"

subsection \<open>The colour argument\<close>

text \<open>
  \<^verbatim>\<open>re.match(r"^[0-9a-fA-F]{6}$", color)\<close>: from the start of the string, six
  characters of the class, and then \<^verbatim>\<open>$\<close>, which in Python holds at the end of the
  string and also just before a line feed that ends the string.
\<close>

definition hex_class :: "char \<Rightarrow> bool" where
  "hex_class c = (c \<in> set ''0123456789abcdefABCDEF'')"

definition re_match :: "string \<Rightarrow> bool" where
  "re_match s = (6 \<le> length s \<and> list_all hex_class (take 6 s)
                 \<and> (drop 6 s = [] \<or> drop 6 s = [CHR 0x0A]))"

text \<open>
  \<^verbatim>\<open>int(color, 16)\<close> on the strings that reach it. Python strips white space around
  the digits and raises \<^verbatim>\<open>ValueError\<close> when what is left is empty or holds a character
  that is no digit of the base; the digits are read from the left, each step
  multiplying by the base. A sign, a \<^verbatim>\<open>0x\<close> prefix, underscores and white space
  outside ASCII, which \<^verbatim>\<open>int\<close> reads as well, hold a character outside the class of
  the pattern and so never reach the call; the model answers \<open>None\<close>, the
  \<^verbatim>\<open>ValueError\<close>, for them. \<open>re_match_int_16\<close> below shows that the answer is never
  \<open>None\<close> after the pattern has matched.
\<close>

definition digit_value :: "char \<Rightarrow> int" where
  "digit_value c =
     (if c \<in> set ''0123456789'' then int (of_char c) - 48
      else if c \<in> set ''abcdef'' then int (of_char c) - 87
      else int (of_char c) - 55)"

definition whitespace :: "char \<Rightarrow> bool" where
  "whitespace c = (c \<in> set [CHR 0x20, CHR 0x09, CHR 0x0A, CHR 0x0B, CHR 0x0C, CHR 0x0D])"

definition strip :: "string \<Rightarrow> string" where
  "strip s = rev (dropWhile whitespace (rev (dropWhile whitespace s)))"

definition int_16 :: "string \<Rightarrow> int option" where
  "int_16 s =
     (let digits = strip s
      in if digits = [] \<or> \<not> list_all hex_class digits then None
         else Some (foldl (\<lambda>n c. 16 * n + digit_value c) 0 digits))"

subsection \<open>The commands\<close>

text \<open>
  Each definition is the body of the command's function. The checks that decorate
  \<^verbatim>\<open>send\<close>, \<^verbatim>\<open>edit\<close> and \<^verbatim>\<open>delete\<close> (\<^verbatim>\<open>permission_level\<close>, \<^verbatim>\<open>guild_only\<close>)
  are evaluated by the command framework before it calls the function; an invocation
  that fails one of them never enters the body.
\<close>

definition send_text :: "env \<Rightarrow> command_context \<Rightarrow> channel \<Rightarrow> (error + unit) \<times> call list" where
  "send_text E ctx ch =
     (if \<not> send_messages (permissions_for ch (me (channel_guild ch)))
      then raise (CommandError could_not_send_message)
      else
        let e = \<lparr>title = translated E rule, description = translated E send_message,
                 colour = Some (get_colour E)\<rparr>
        in and_then (ctx_send E e) (\<lambda>msg.
           and_then (read_normal_message E (ctx_channel ctx) (ctx_author ctx) True)
             (\<lambda>(content, files).
           and_then (except_send (channel_send E ch (Some content) (Some files) None)) (\<lambda>_.
             let e = e\<lparr>description := description e @ nn @ translated E msg_sent\<rparr>
             in message_edit E msg None (Some (Some e)) None)))) []"

definition send_embed ::
  "env \<Rightarrow> command_context \<Rightarrow> channel \<Rightarrow> color option \<Rightarrow> (error + unit) \<times> call list" where
  "send_embed E ctx ch color =
     and_then
       (case color of
          Some (Str s) \<Rightarrow>
            if \<not> re_match s then raise (CommandError invalid_color)
            else (case int_16 s of None \<Rightarrow> raise ValueError | Some n \<Rightarrow> return (Some n))
        | Some (Color c) \<Rightarrow> return (Some c)
        | None \<Rightarrow> return None)
       (\<lambda>color.
          let permissions = permissions_for ch (me (channel_guild ch))
          in if \<not> send_messages permissions then raise (CommandError could_not_send_message)
             else if \<not> embed_links permissions then raise (CommandError could_not_send_embed)
             else
               let e = \<lparr>title = translated E rule, description = translated E send_embed_title,
                        colour = Some (get_colour E)\<rparr>
               in and_then (ctx_send E e) (\<lambda>msg.
                  and_then (read_normal_message E (ctx_channel ctx) (ctx_author ctx) True)
                    (\<lambda>(heading, _).
                  if length heading > 256 then raise (CommandError title_too_long)
                  else
                    let e = e\<lparr>description := description e @ nn @ translated E send_embed_content\<rparr>
                    in and_then (message_edit E msg None (Some (Some e)) None) (\<lambda>_.
                       and_then (read_normal_message E (ctx_channel ctx) (ctx_author ctx) True)
                         (\<lambda>(content, _).
                       let sent = \<lparr>title = heading, description = content, colour = None\<rparr>;
                           sent = (case color of None \<Rightarrow> sent | Some c \<Rightarrow> sent\<lparr>colour := Some c\<rparr>)
                       in and_then (except_send (channel_send E ch None None (Some sent))) (\<lambda>_.
                          let e = e\<lparr>description := description e @ nn @ translated E msg_sent\<rparr>
                          in message_edit E msg None (Some (Some e)) None)))))) []"

definition edit_text :: "env \<Rightarrow> command_context \<Rightarrow> message \<Rightarrow> (error + unit) \<times> call list" where
  "edit_text E ctx message =
     (if author message \<noteq> bot_user E then raise (CommandError could_not_edit)
      else
        let e = \<lparr>title = translated E rule, description = translated E send_new_message,
                 colour = Some (get_colour E)\<rparr>
        in and_then (ctx_send E e) (\<lambda>msg.
           and_then (read_normal_message E (ctx_channel ctx) (ctx_author ctx) True)
             (\<lambda>(content, files).
           if files \<noteq> [] then raise (CommandError cannot_edit_files)
           else
             and_then (message_edit E message (Some (Some content)) (Some None) None) (\<lambda>_.
             let e = e\<lparr>description := description e @ nn @ translated E msg_edited\<rparr>
             in message_edit E msg None (Some (Some e)) None)))) []"

definition edit_embed ::
  "env \<Rightarrow> command_context \<Rightarrow> message \<Rightarrow> color option \<Rightarrow> (error + unit) \<times> call list" where
  "edit_embed E ctx message color =
     (if author message \<noteq> bot_user E then raise (CommandError could_not_edit)
      else
        and_then
          (case color of
             Some (Str s) \<Rightarrow>
               if \<not> re_match s then raise (CommandError invalid_color)
               else (case int_16 s of None \<Rightarrow> raise ValueError | Some n \<Rightarrow> return (Some n))
           | Some (Color c) \<Rightarrow> return (Some c)
           | None \<Rightarrow> return None)
          (\<lambda>color.
             let e = \<lparr>title = translated E rule, description = translated E send_embed_title,
                      colour = Some (get_colour E)\<rparr>
             in and_then (ctx_send E e) (\<lambda>msg.
                and_then (read_normal_message E (ctx_channel ctx) (ctx_author ctx) True)
                  (\<lambda>(heading, _).
                if length heading > 256 then raise (CommandError title_too_long)
                else
                  let e = e\<lparr>description := description e @ nn @ translated E send_embed_content\<rparr>
                  in and_then (message_edit E msg None (Some (Some e)) None) (\<lambda>_.
                     and_then (read_normal_message E (ctx_channel ctx) (ctx_author ctx) True)
                       (\<lambda>(content, _).
                     let sent = \<lparr>title = heading, description = content, colour = None\<rparr>;
                         sent = (case color of None \<Rightarrow> sent | Some c \<Rightarrow> sent\<lparr>colour := Some c\<rparr>)
                     in and_then (message_edit E message (Some None) (Some (Some sent)) (Some []))
                          (\<lambda>_.
                        let e = e\<lparr>description := description e @ nn @ translated E msg_edited\<rparr>
                        in message_edit E msg None (Some (Some e)) None))))))) []"

definition edit_copy ::
  "env \<Rightarrow> command_context \<Rightarrow> message \<Rightarrow> message \<Rightarrow> (error + unit) \<times> call list" where
  "edit_copy E ctx message source =
     (if author message \<noteq> bot_user E then raise (CommandError could_not_edit)
      else
        and_then (read_complete_message E source) (\<lambda>(content, files, copied).
        if files \<noteq> [] then raise (CommandError cannot_edit_files)
        else
          and_then (message_edit E message (Some (Some content)) (Some copied) None) (\<lambda>_.
          let e = \<lparr>title = translated E rule, description = translated E msg_edited,
                   colour = Some (get_colour E)\<rparr>
          in and_then (ctx_send E e) (\<lambda>_. return ())))) []"

definition delete :: "env \<Rightarrow> command_context \<Rightarrow> message \<Rightarrow> (error + unit) \<times> call list" where
  "delete E ctx message =
     (case guild message of
        None \<Rightarrow> raise (CommandError cannot_delete_dm)
      | Some g \<Rightarrow>
          let permissions = permissions_for (channel message) (me g)
          in if author message \<noteq> bot_user E \<and> \<not> manage_messages permissions
             then raise (CommandError could_not_delete)
             else
               and_then (message_delete E message) (\<lambda>_.
               let e = \<lparr>title = translated E rule, description = translated E msg_deleted,
                        colour = Some (get_colour E)\<rparr>
               in and_then (ctx_send E e) (\<lambda>_. return ()))) []"

section \<open>The warning record of \<^verbatim>\<open>models/mod.py\<close>\<close>

text \<open>
  A \<^verbatim>\<open>Warn\<close> object has the five columns of the class. A column that has not been set is
  \<open>None\<close>. A \<^verbatim>\<open>datetime\<close> is a point in time, counted from some origin.
\<close>

type_synonym datetime = int

record warn =
  warn_id :: "int option"
  warn_member :: "int option"
  warn_mod :: "int option"
  warn_timestamp :: "datetime option"
  warn_reason :: "string option"

text \<open>
  Two \<^verbatim>\<open>Warn\<close> objects with equal columns are still two objects, so the objects live in
  a store and are identified by their position in it. The state holds the store, the
  objects that the session of \<^verbatim>\<open>db\<close> holds for insertion, the rows of the table
  \<^verbatim>\<open>warn\<close> and the next value of the auto-incrementing key.
\<close>

record state =
  objects :: "warn list"
  pending :: "nat list"
  stored :: "warn list"
  autoincrement :: int

text \<open>
  \<^verbatim>\<open>Warn(member=..., mod=..., timestamp=..., reason=...)\<close>: a new object; its \<^verbatim>\<open>id\<close> is not
  among the keywords and stays unset.
\<close>

definition Warn :: "int \<Rightarrow> int \<Rightarrow> datetime \<Rightarrow> string \<Rightarrow> state \<Rightarrow> nat \<times> state" where
  "Warn member moderator timestamp reason s =
     (length (objects s),
      s\<lparr>objects := objects s @
           [\<lparr>warn_id = None, warn_member = Some member, warn_mod = Some moderator,
             warn_timestamp = Some timestamp, warn_reason = Some reason\<rparr>]\<rparr>)"

text \<open>
  Modelled from the spec: \<^verbatim>\<open>db.add\<close> of the module \<^verbatim>\<open>database\<close>, which is not among the
  sources. The spec has it append the record to the pending-write set of the persistence
  layer, one pending insert for the record; a set holds an object once.
\<close>

definition db_add :: "nat \<Rightarrow> state \<Rightarrow> state" where
  "db_add row s =
     s\<lparr>pending := (if row \<in> set (pending s) then pending s else pending s @ [row])\<rparr>"

text \<open>
  \<^verbatim>\<open>Warn.create\<close>. The first argument is what \<^verbatim>\<open>datetime.now()\<close> returns when the
  function runs.
\<close>

definition create :: "datetime \<Rightarrow> int \<Rightarrow> int \<Rightarrow> string \<Rightarrow> state \<Rightarrow> nat \<times> state" where
  "create now member moderator reason s =
     (let (row, s) = Warn member moderator now reason s;
          s = db_add row s
      in (row, s))"

text \<open>
  Modelled from the spec: the commit of the session, which is the caller's and not among
  the sources. The spec has \<^verbatim>\<open>id\<close> an auto-incrementing unique integer that storage
  assigns on creation and never reuses: each pending object, in the order of its
  insertion, receives the next key and becomes a row.
\<close>

fun insert_rows :: "nat list \<Rightarrow> state \<Rightarrow> state" where
  "insert_rows [] s = s"
| "insert_rows (r # rs) s =
     (if r < length (objects s)
      then
        let w = (objects s ! r)\<lparr>warn_id := Some (autoincrement s)\<rparr>
        in insert_rows rs
             (s\<lparr>objects := (objects s)[r := w], stored := stored s @ [w],
                autoincrement := autoincrement s + 1\<rparr>)
      else insert_rows rs s)"

definition commit :: "state \<Rightarrow> state" where
  "commit s = (insert_rows (pending s) s)\<lparr>pending := []\<rparr>"

text \<open>
  The session only holds objects that exist: every pending identity is a position of the
  store. The empty state has the property, and \<open>create\<close> and \<open>commit\<close> keep it.
\<close>

definition well_formed :: "state \<Rightarrow> bool" where
  "well_formed s = list_all (\<lambda>r. r < length (objects s)) (pending s)"

section \<open>What the specification speaks of\<close>

text \<open>
  The specification's own notions, written after its words and compared with the code
  below: a string of exactly six hexadecimal digits, and the base-16 value of a string of
  digits, each digit weighted by its position.
\<close>

definition six_hex_digits :: "string \<Rightarrow> bool" where
  "six_hex_digits s = (length s = 6 \<and> list_all hex_class s)"

fun base16_value :: "string \<Rightarrow> int" where
  "base16_value [] = 0"
| "base16_value (c # cs) = digit_value c * 16 ^ length cs + base16_value cs"

text \<open>
  The same surroundings with other files attached to the invoker's answers: answer \<open>i\<close>
  keeps its text and carries the files \<open>fs i\<close>.
\<close>

definition with_attachments :: "(nat \<Rightarrow> discord_file list) \<Rightarrow> env \<Rightarrow> env" where
  "with_attachments fs E =
     E\<lparr>prompts := (\<lambda>i. case prompts E i of Inl x \<Rightarrow> Inl x | Inr (text, _) \<Rightarrow> Inr (text, fs i))\<rparr>"

section \<open>Concrete inputs\<close>

text \<open>
  A guild in which the bot is member 100, and four channels of it: one where every
  member may do everything, one where nobody may do anything, one where every member
  but the bot manages messages, and one where only the bot does.
\<close>

definition example_guild :: guild where
  "example_guild = \<lparr>guild_id = 1, me = 100\<rparr>"

definition open_channel :: channel where
  "open_channel = \<lparr>channel_id = 10, channel_guild = example_guild,
     permissions_for = (\<lambda>u. \<lparr>send_messages = True, embed_links = True, manage_messages = True\<rparr>)\<rparr>"

definition closed_channel :: channel where
  "closed_channel = \<lparr>channel_id = 11, channel_guild = example_guild,
     permissions_for = (\<lambda>u. \<lparr>send_messages = False, embed_links = False, manage_messages = False\<rparr>)\<rparr>"

definition staff_channel :: channel where
  "staff_channel = \<lparr>channel_id = 12, channel_guild = example_guild,
     permissions_for =
       (\<lambda>u. \<lparr>send_messages = True, embed_links = True, manage_messages = (u \<noteq> 100)\<rparr>)\<rparr>"

definition bot_channel :: channel where
  "bot_channel = \<lparr>channel_id = 13, channel_guild = example_guild,
     permissions_for =
       (\<lambda>u. \<lparr>send_messages = True, embed_links = True, manage_messages = (u = 100)\<rparr>)\<rparr>"

text \<open>
  Member 7 invokes the commands in the open channel. The messages: one of the bot, one
  of member 7 in each of the last two channels, and the status message that a send
  returns.
\<close>

definition example_ctx :: command_context where
  "example_ctx = \<lparr>ctx_channel = open_channel, ctx_author = 7\<rparr>"

definition bot_message :: message where
  "bot_message = \<lparr>message_id = 500, author = 100, guild = Some example_guild,
     channel = closed_channel\<rparr>"

definition staff_message :: message where
  "staff_message = \<lparr>message_id = 501, author = 7, guild = Some example_guild,
     channel = staff_channel\<rparr>"

definition member_message :: message where
  "member_message = \<lparr>message_id = 502, author = 7, guild = Some example_guild,
     channel = bot_channel\<rparr>"

definition status_message :: message where
  "status_message = \<lparr>message_id = 900, author = 100, guild = Some example_guild,
     channel = open_channel\<rparr>"

text \<open>
  Surroundings in which every call succeeds and the invoker answers each prompt with the
  text \<open>Rules\<close> and one attached file; and the same with a platform that forbids every
  edit and delete.
\<close>

definition example_env :: env where
  "example_env = \<lparr>bot_user = 100, translated = (\<lambda>t. ''text''), get_colour = 255,
     sends = (\<lambda>i. Inr status_message), edits = (\<lambda>i. None),
     prompts = (\<lambda>i. Inr (''Rules'', [File ''rules.png''])),
     completes = (\<lambda>i. Inr (''Rules'', [], None))\<rparr>"

definition forbidding_env :: env where
  "forbidding_env = example_env\<lparr>edits := (\<lambda>i. Some Forbidden)\<rparr>"

text \<open>A state in which one object is pending.\<close>

definition example_state :: state where
  "example_state = \<lparr>objects = [\<lparr>warn_id = None, warn_member = Some 1, warn_mod = Some 2,
       warn_timestamp = Some 1000, warn_reason = Some ''flood''\<rparr>],
     pending = [0], stored = [], autoincrement = 1\<rparr>"

section \<open>Properties of the rule commands\<close>

lemmas act_defs = return_def raise_def and_then_def ctx_send_def channel_send_def
  message_edit_def message_delete_def read_normal_message_def read_complete_message_def
  except_send_def Let_def

lemmas example_defs = example_guild_def open_channel_def closed_channel_def staff_channel_def
  bot_channel_def example_ctx_def bot_message_def staff_message_def member_message_def
  status_message_def example_env_def forbidding_env_def

subsection \<open>Colour strings\<close>

lemma digit_value_table:
  "map digit_value ''0123456789abcdefABCDEF''
     = [0, 1, 2, 3, 4, 5, 6, 7, 8, 9, 10, 11, 12, 13, 14, 15, 10, 11, 12, 13, 14, 15]"
  by (simp add: digit_value_def)

lemma hex_class_not_whitespace: "hex_class c \<Longrightarrow> \<not> whitespace c"
  by (auto simp: hex_class_def whitespace_def)

lemma dropWhile_hex: "list_all hex_class s \<Longrightarrow> dropWhile whitespace s = s"
  by (cases s) (simp_all add: hex_class_not_whitespace)

lemma strip_hex: "list_all hex_class s \<Longrightarrow> strip s = s"
  by (simp add: strip_def dropWhile_hex)

lemma strip_hex_newline:
  assumes h: "list_all hex_class s"
  shows "strip (s @ [CHR 0x0A]) = s"
proof (cases s)
  case Nil
  then show ?thesis by (simp add: strip_def whitespace_def)
next
  case (Cons c cs)
  with h have "\<not> whitespace c" by (simp add: hex_class_not_whitespace)
  with Cons have "dropWhile whitespace (s @ [CHR 0x0A]) = s @ [CHR 0x0A]" by simp
  moreover have "whitespace (CHR 0x0A)" by (simp add: whitespace_def)
  ultimately show ?thesis using h by (simp add: strip_def dropWhile_hex)
qed

text \<open>The loop of \<open>int_16\<close> computes the positional value.\<close>

lemma foldl_base16:
  "foldl (\<lambda>n c. 16 * n + digit_value c) a s = a * 16 ^ length s + base16_value s"
  by (induction s arbitrary: a) (simp_all add: algebra_simps)

lemma int_16_hex:
  "s \<noteq> [] \<Longrightarrow> list_all hex_class s \<Longrightarrow> int_16 s = Some (base16_value s)"
  by (simp add: int_16_def strip_hex foldl_base16)

lemma int_16_six: "six_hex_digits s \<Longrightarrow> int_16 s = Some (base16_value s)"
  by (rule int_16_hex) (auto simp: six_hex_digits_def)

lemma re_match_six: "six_hex_digits s \<Longrightarrow> re_match s"
  by (simp add: six_hex_digits_def re_match_def)

text \<open>
  What the pattern matches, in the specification's terms: six hexadecimal digits, or six
  hexadecimal digits and one line feed after them.
\<close>

lemma re_match_iff:
  "re_match s \<longleftrightarrow> six_hex_digits s \<or> (six_hex_digits (butlast s) \<and> last s = CHR 0x0A)"
proof
  assume m: "re_match s"
  then have l: "6 \<le> length s" and h: "list_all hex_class (take 6 s)"
    and d: "drop 6 s = [] \<or> drop 6 s = [CHR 0x0A]"
    by (simp_all add: re_match_def)
  from d show "six_hex_digits s \<or> (six_hex_digits (butlast s) \<and> last s = CHR 0x0A)"
  proof
    assume "drop 6 s = []"
    with l have "length s = 6" by simp
    with h show ?thesis by (simp add: six_hex_digits_def)
  next
    assume e: "drop 6 s = [CHR 0x0A]"
    have "s = take 6 s @ drop 6 s" by simp
    with e have s: "s = take 6 s @ [CHR 0x0A]" by simp
    have "length (take 6 s) = 6" using l by simp
    then have "six_hex_digits (take 6 s)" using h by (simp add: six_hex_digits_def)
    moreover have "butlast s = take 6 s" by (subst s) (simp only: butlast_snoc)
    moreover have "last s = CHR 0x0A" by (subst s) (simp only: last_snoc)
    ultimately show ?thesis by simp
  qed
next
  assume "six_hex_digits s \<or> (six_hex_digits (butlast s) \<and> last s = CHR 0x0A)"
  then show "re_match s"
  proof
    assume "six_hex_digits s"
    then show ?thesis by (rule re_match_six)
  next
    assume a: "six_hex_digits (butlast s) \<and> last s = CHR 0x0A"
    define t where "t = butlast s"
    from a have l: "length t = 6" and h: "list_all hex_class t"
      by (simp_all add: six_hex_digits_def t_def)
    from l have "s \<noteq> []" by (auto simp: t_def)
    then have s: "s = t @ [CHR 0x0A]"
      using a unfolding t_def by (metis append_butlast_last_id)
    show ?thesis unfolding s using l h by (simp add: re_match_def)
  qed
qed

text \<open>\<^verbatim>\<open>int\<close> never raises on a string that the pattern has let through.\<close>

lemma re_match_int_16:
  assumes "re_match s"
  shows "\<exists>n. int_16 s = Some n"
proof -
  from assms consider "six_hex_digits s" | "six_hex_digits (butlast s)" "last s = CHR 0x0A"
    by (auto simp: re_match_iff)
  then show ?thesis
  proof cases
    case 1
    then show ?thesis by (simp add: int_16_six)
  next
    case 2
    define t where "t = butlast s"
    from 2 have l: "length t = 6" and h: "list_all hex_class t"
      by (simp_all add: six_hex_digits_def t_def)
    from l have "s \<noteq> []" by (auto simp: t_def)
    then have s: "s = t @ [CHR 0x0A]"
      using 2 unfolding t_def by (metis append_butlast_last_id)
    from l have e: "t \<noteq> []" by auto
    show ?thesis unfolding s using h e by (simp add: int_16_def strip_hex_newline)
  qed
qed

subsection \<open>The colour argument in the two embed commands\<close>

lemma send_embed_str:
  "six_hex_digits s \<Longrightarrow>
     send_embed E ctx ch (Some (Str s)) = send_embed E ctx ch (Some (Color (base16_value s)))"
  by (simp add: send_embed_def re_match_six int_16_six)

lemma edit_embed_str:
  "six_hex_digits s \<Longrightarrow>
     edit_embed E ctx message (Some (Str s))
       = edit_embed E ctx message (Some (Color (base16_value s)))"
  by (simp add: edit_embed_def re_match_six int_16_six)

lemma send_embed_no_match:
  "\<not> re_match s \<Longrightarrow>
     send_embed E ctx ch (Some (Str s)) = (Inl (CommandError invalid_color), [])"
  by (simp add: send_embed_def raise_def and_then_def)

lemma edit_embed_no_match:
  "\<not> re_match s \<Longrightarrow> author message = bot_user E \<Longrightarrow>
     edit_embed E ctx message (Some (Str s)) = (Inl (CommandError invalid_color), [])"
  by (simp add: edit_embed_def raise_def and_then_def)

lemma send_embed_native:
  "fst (send_embed E ctx ch (Some (Color c))) \<noteq> Inl (CommandError invalid_color)"
  by (simp add: send_embed_def act_defs
      split: sum.split option.split prod.split raised.split error.split)

lemma edit_embed_native:
  "fst (edit_embed E ctx message (Some (Color c))) \<noteq> Inl (CommandError invalid_color)"
  by (simp add: edit_embed_def act_defs
      split: sum.split option.split prod.split raised.split error.split)

text \<open>
  The one call that delivers the embed, in each command: what it carries. The invoker's
  two answers are the second and the fourth call of the invocation.
\<close>

lemma send_embed_delivery:
  "Channel_send ch' c f e \<in> set (snd (send_embed E ctx ch color)) \<Longrightarrow>
     c = None \<and> f = None \<and>
     (\<exists>heading x body y. prompts E 1 = Inr (heading, x) \<and> prompts E 3 = Inr (body, y) \<and>
        e = Some \<lparr>title = heading, description = body,
                  colour = (case color of None \<Rightarrow> None | Some (Color n) \<Rightarrow> Some n
                            | Some (Str s) \<Rightarrow> int_16 s)\<rparr>)"
  by (auto simp add: send_embed_def act_defs numeral_3_eq_3
      split: sum.splits option.splits prod.splits raised.splits error.splits if_splits
        color.splits)

lemma edit_embed_delivery:
  "Message_edit m (Some None) e f \<in> set (snd (edit_embed E ctx message color)) \<Longrightarrow>
     m = message \<and> f = Some [] \<and>
     (\<exists>heading x body y. prompts E 1 = Inr (heading, x) \<and> prompts E 3 = Inr (body, y) \<and>
        e = Some (Some \<lparr>title = heading, description = body,
                  colour = (case color of None \<Rightarrow> None | Some (Color n) \<Rightarrow> Some n
                            | Some (Str s) \<Rightarrow> int_16 s)\<rparr>))"
  by (auto simp add: edit_embed_def act_defs numeral_3_eq_3
      split: sum.splits option.splits prod.splits raised.splits error.splits if_splits
        color.splits)

text \<open>
  The files of the answers do not enter a command that binds the text of an answer and
  drops the rest.
\<close>

lemma with_attachments_fields:
  "bot_user (with_attachments fs E) = bot_user E"
  "translated (with_attachments fs E) = translated E"
  "get_colour (with_attachments fs E) = get_colour E"
  by (simp_all add: with_attachments_def)

lemma with_attachments_calls:
  "ctx_send (with_attachments fs E) = ctx_send E"
  "channel_send (with_attachments fs E) = channel_send E"
  "message_edit (with_attachments fs E) = message_edit E"
  by (simp_all add: fun_eq_iff ctx_send_def channel_send_def message_edit_def
      with_attachments_def)

lemma with_attachments_prompt:
  "and_then (read_normal_message (with_attachments fs E) c u b) (\<lambda>(x, _). k x)
     = and_then (read_normal_message E c u b) (\<lambda>(x, _). k x)"
  by (simp add: fun_eq_iff and_then_def read_normal_message_def with_attachments_def
      split: sum.split prod.split)

lemma send_embed_with_attachments:
  "send_embed (with_attachments fs E) ctx ch color = send_embed E ctx ch color"
  by (simp add: send_embed_def with_attachments_fields with_attachments_calls
      with_attachments_prompt Let_def cong: if_cong)

lemma edit_embed_with_attachments:
  "edit_embed (with_attachments fs E) ctx message color = edit_embed E ctx message color"
  by (simp add: edit_embed_def with_attachments_fields with_attachments_calls
      with_attachments_prompt Let_def cong: if_cong)

text \<open>The two commands in the example surroundings.\<close>

lemma send_embed_example:
  "send_embed example_env example_ctx open_channel (Some (Color n)) =
     (Inr (),
      [Ctx_send \<lparr>title = ''text'', description = ''text'', colour = Some 255\<rparr>,
       Read_normal_message open_channel 7 True,
       Message_edit status_message None
         (Some (Some \<lparr>title = ''text'', description = ''text'' @ nn @ ''text'',
                       colour = Some 255\<rparr>)) None,
       Read_normal_message open_channel 7 True,
       Channel_send open_channel None None
         (Some \<lparr>title = ''Rules'', description = ''Rules'', colour = Some n\<rparr>),
       Message_edit status_message None
         (Some (Some \<lparr>title = ''text'',
                       description = (''text'' @ nn @ ''text'') @ nn @ ''text'',
                       colour = Some 255\<rparr>)) None])"
  by (simp add: send_embed_def act_defs example_env_def example_ctx_def open_channel_def
      example_guild_def)

lemma edit_embed_example:
  "edit_embed example_env example_ctx bot_message (Some (Color n)) =
     (Inr (),
      [Ctx_send \<lparr>title = ''text'', description = ''text'', colour = Some 255\<rparr>,
       Read_normal_message open_channel 7 True,
       Message_edit status_message None
         (Some (Some \<lparr>title = ''text'', description = ''text'' @ nn @ ''text'',
                       colour = Some 255\<rparr>)) None,
       Read_normal_message open_channel 7 True,
       Message_edit bot_message (Some None)
         (Some (Some \<lparr>title = ''Rules'', description = ''Rules'', colour = Some n\<rparr>))
         (Some []),
       Message_edit status_message None
         (Some (Some \<lparr>title = ''text'',
                       description = (''text'' @ nn @ ''text'') @ nn @ ''text'',
                       colour = Some 255\<rparr>)) None])"
  by (simp add: edit_embed_def act_defs example_env_def example_ctx_def bot_message_def)

lemma six_hex_digits_ff0000: "six_hex_digits ''ff0000''"
  by (simp add: six_hex_digits_def hex_class_def)

lemma base16_value_ff0000: "base16_value ''ff0000'' = 16711680"
  by (simp add: digit_value_def)

subsection \<open>The claims about the rule commands\<close>

text \<open>
  C1, as amended: \<^verbatim>\<open>delete\<close> on a message of a guild fails with \<^verbatim>\<open>could_not_delete\<close>, and
  issues no call, when the message's author is not the bot and the bot's own member
  lacks the permission to manage messages in the message's channel. When the message is
  the bot's own, or the bot holds that permission, the first call is the deletion of the
  message, and when the platform carries it out and posts the embed that follows, the
  command succeeds: the message is deleted and the success embed is sent. The permission
  that counts is the bot's, not the invoker's and not the author's.
\<close>

theorem delete_guild_message:
  assumes "guild message = Some g"
  shows "(author message \<noteq> bot_user E
            \<and> \<not> manage_messages (permissions_for (channel message) (me g))
          \<longrightarrow> delete E ctx message = (Inl (CommandError could_not_delete), []))
       \<and> (author message = bot_user E
            \<or> manage_messages (permissions_for (channel message) (me g))
          \<longrightarrow> take 1 (snd (delete E ctx message)) = [Message_delete message]
            \<and> (edits E 0 = None \<and> sends E 1 = Inr m
               \<longrightarrow> delete E ctx message =
                     (Inr (),
                      [Message_delete message,
                       Ctx_send \<lparr>title = translated E rule,
                                 description = translated E msg_deleted,
                                 colour = Some (get_colour E)\<rparr>])))"
  using assms by (auto simp add: delete_def act_defs split: option.splits sum.splits)

theorem delete_guild_message_witness:
  "guild staff_message = Some example_guild
   \<and> author staff_message \<noteq> bot_user example_env
   \<and> \<not> manage_messages (permissions_for (channel staff_message) (me example_guild))
   \<and> delete example_env example_ctx staff_message = (Inl (CommandError could_not_delete), [])
   \<and> guild bot_message = Some example_guild
   \<and> author bot_message = bot_user example_env
   \<and> edits example_env 0 = None \<and> sends example_env 1 = Inr status_message
   \<and> delete example_env example_ctx bot_message =
       (Inr (),
        [Message_delete bot_message,
         Ctx_send \<lparr>title = ''text'', description = ''text'', colour = Some 255\<rparr>])"
proof -
  have g1: "guild staff_message = Some example_guild" by (simp add: staff_message_def)
  have g2: "guild bot_message = Some example_guild" by (simp add: bot_message_def)
  have a1: "author staff_message \<noteq> bot_user example_env
            \<and> \<not> manage_messages (permissions_for (channel staff_message) (me example_guild))"
    by (simp add: example_defs)
  have a2: "author bot_message = bot_user example_env" by (simp add: example_defs)
  have p: "edits example_env 0 = None \<and> sends example_env 1 = Inr status_message"
    by (simp add: example_env_def)
  from delete_guild_message [OF g1, of example_env example_ctx status_message] a1
  have 1: "delete example_env example_ctx staff_message
             = (Inl (CommandError could_not_delete), [])" by blast
  from delete_guild_message [OF g2, of example_env example_ctx status_message] a2 p
  have 2: "delete example_env example_ctx bot_message =
       (Inr (),
        [Message_delete bot_message,
         Ctx_send \<lparr>title = translated example_env rule,
                   description = translated example_env msg_deleted,
                   colour = Some (get_colour example_env)\<rparr>])" by blast
  have t: "translated example_env rule = ''text''"
    "translated example_env msg_deleted = ''text''" "get_colour example_env = 255"
    by (simp_all add: example_env_def)
  from g1 g2 a1 a2 p 1 2 show ?thesis unfolding t by blast
qed

text \<open>
  C1, as stated, fails. In the staff channel every member but the bot manages messages:
  the message of member 7 there is not deleted, although its author and the invoker hold
  the permission. In the bot channel only the bot manages messages: the message of
  member 7 there is deleted, although neither its author nor the invoker holds the
  permission. And when the platform forbids the deletion, the deletion of the bot's own
  message ends with that exception.
\<close>

theorem delete_permission_counterexample:
  "author staff_message \<noteq> bot_user example_env
   \<and> manage_messages (permissions_for (channel staff_message) (author staff_message))
   \<and> manage_messages (permissions_for (channel staff_message) (ctx_author example_ctx))
   \<and> delete example_env example_ctx staff_message = (Inl (CommandError could_not_delete), [])
   \<and> author member_message \<noteq> bot_user example_env
   \<and> \<not> manage_messages (permissions_for (channel member_message) (author member_message))
   \<and> \<not> manage_messages (permissions_for (channel member_message) (ctx_author example_ctx))
   \<and> delete example_env example_ctx member_message =
       (Inr (),
        [Message_delete member_message,
         Ctx_send \<lparr>title = ''text'', description = ''text'', colour = Some 255\<rparr>])
   \<and> author bot_message = bot_user forbidding_env
   \<and> delete forbidding_env example_ctx bot_message =
       (Inl (Raised Forbidden), [Message_delete bot_message])"
  by (simp add: delete_def act_defs example_defs)

text \<open>
  C2: \<^verbatim>\<open>edit text\<close>, \<^verbatim>\<open>edit embed\<close> and \<^verbatim>\<open>edit copy\<close> on a message whose author is not
  the bot fail with \<^verbatim>\<open>could_not_edit\<close> and issue no call, so no edit of the message;
  this holds for every invoker, colour and source, and nothing about the invoker enters.
\<close>

theorem edit_foreign_message:
  assumes "author message \<noteq> bot_user E"
  shows "edit_text E ctx message = (Inl (CommandError could_not_edit), [])
       \<and> edit_embed E ctx message color = (Inl (CommandError could_not_edit), [])
       \<and> edit_copy E ctx message source = (Inl (CommandError could_not_edit), [])"
  using assms by (simp add: edit_text_def edit_embed_def edit_copy_def raise_def)

theorem edit_foreign_message_witness:
  "author staff_message \<noteq> bot_user example_env
   \<and> edit_text example_env example_ctx staff_message = (Inl (CommandError could_not_edit), [])
   \<and> edit_embed example_env example_ctx staff_message (Some (Color 255))
       = (Inl (CommandError could_not_edit), [])
   \<and> edit_copy example_env example_ctx staff_message bot_message
       = (Inl (CommandError could_not_edit), [])"
proof -
  have h: "author staff_message \<noteq> bot_user example_env" by (simp add: example_defs)
  show ?thesis
    using h edit_foreign_message [OF h, of example_ctx "Some (Color 255)" bot_message]
    by simp
qed

text \<open>
  C3, as amended: in \<^verbatim>\<open>send embed\<close>, and in \<^verbatim>\<open>edit embed\<close> on a message of the bot, a
  colour string of exactly six hexadecimal digits is accepted (the command does not fail
  with \<^verbatim>\<open>invalid_color\<close>), and a string that is neither six hexadecimal digits nor six
  hexadecimal digits followed by one line feed fails with \<^verbatim>\<open>invalid_color\<close> before any
  call is issued.
\<close>

theorem color_string_validation:
  "(six_hex_digits s \<longrightarrow>
      fst (send_embed E ctx ch (Some (Str s))) \<noteq> Inl (CommandError invalid_color)
      \<and> fst (edit_embed E ctx message (Some (Str s))) \<noteq> Inl (CommandError invalid_color))
   \<and> (\<not> six_hex_digits s \<and> \<not> (six_hex_digits (butlast s) \<and> last s = CHR 0x0A) \<longrightarrow>
      send_embed E ctx ch (Some (Str s)) = (Inl (CommandError invalid_color), [])
      \<and> (author message = bot_user E \<longrightarrow>
           edit_embed E ctx message (Some (Str s)) = (Inl (CommandError invalid_color), [])))"
proof (intro conjI impI)
  assume "six_hex_digits s"
  then show "fst (send_embed E ctx ch (Some (Str s))) \<noteq> Inl (CommandError invalid_color)"
    by (simp only: send_embed_str send_embed_native not_False_eq_True)
next
  assume "six_hex_digits s"
  then show "fst (edit_embed E ctx message (Some (Str s))) \<noteq> Inl (CommandError invalid_color)"
    by (simp only: edit_embed_str edit_embed_native not_False_eq_True)
next
  assume "\<not> six_hex_digits s \<and> \<not> (six_hex_digits (butlast s) \<and> last s = CHR 0x0A)"
  then have "\<not> re_match s" by (simp add: re_match_iff)
  then show "send_embed E ctx ch (Some (Str s)) = (Inl (CommandError invalid_color), [])"
    by (rule send_embed_no_match)
next
  assume "\<not> six_hex_digits s \<and> \<not> (six_hex_digits (butlast s) \<and> last s = CHR 0x0A)"
    and b: "author message = bot_user E"
  then have "\<not> re_match s" by (simp add: re_match_iff)
  then show "edit_embed E ctx message (Some (Str s)) = (Inl (CommandError invalid_color), [])"
    using b by (rule edit_embed_no_match)
qed

theorem color_string_validation_witness:
  "six_hex_digits ''ff0000''
   \<and> fst (send_embed example_env example_ctx open_channel (Some (Str ''ff0000'')))
       \<noteq> Inl (CommandError invalid_color)
   \<and> fst (edit_embed example_env example_ctx bot_message (Some (Str ''ff0000'')))
       \<noteq> Inl (CommandError invalid_color)
   \<and> \<not> six_hex_digits ''#fff''
   \<and> \<not> (six_hex_digits (butlast ''#fff'') \<and> last ''#fff'' = CHR 0x0A)
   \<and> author bot_message = bot_user example_env
   \<and> send_embed example_env example_ctx open_channel (Some (Str ''#fff''))
       = (Inl (CommandError invalid_color), [])
   \<and> edit_embed example_env example_ctx bot_message (Some (Str ''#fff''))
       = (Inl (CommandError invalid_color), [])"
proof -
  have n: "\<not> six_hex_digits ''#fff''
           \<and> \<not> (six_hex_digits (butlast ''#fff'') \<and> last ''#fff'' = CHR 0x0A)"
    by (simp add: six_hex_digits_def)
  have b: "author bot_message = bot_user example_env" by (simp add: example_defs)
  from color_string_validation [of "''ff0000''" example_env example_ctx open_channel bot_message]
    six_hex_digits_ff0000
  have 1: "fst (send_embed example_env example_ctx open_channel (Some (Str ''ff0000'')))
             \<noteq> Inl (CommandError invalid_color)
           \<and> fst (edit_embed example_env example_ctx bot_message (Some (Str ''ff0000'')))
             \<noteq> Inl (CommandError invalid_color)" by blast
  from color_string_validation [of "''#fff''" example_env example_ctx open_channel bot_message]
    n b
  have 2: "send_embed example_env example_ctx open_channel (Some (Str ''#fff''))
             = (Inl (CommandError invalid_color), [])
           \<and> edit_embed example_env example_ctx bot_message (Some (Str ''#fff''))
             = (Inl (CommandError invalid_color), [])" by blast
  from six_hex_digits_ff0000 n b 1 2 show ?thesis by blast
qed

text \<open>
  C3, as stated, fails. On a message that is not the bot's, \<^verbatim>\<open>edit embed\<close> with the
  string \<open>zzzzzz\<close> fails with \<^verbatim>\<open>could_not_edit\<close>, not with \<^verbatim>\<open>invalid_color\<close>. And
  \<^verbatim>\<open>send embed\<close> accepts \<open>ff0000\<close> followed by a line feed, seven characters, and
  goes on to send the embed.
\<close>

theorem color_string_counterexample:
  "\<not> six_hex_digits ''zzzzzz''
   \<and> edit_embed example_env example_ctx staff_message (Some (Str ''zzzzzz''))
       = (Inl (CommandError could_not_edit), [])
   \<and> \<not> six_hex_digits (''ff0000'' @ [CHR 0x0A])
   \<and> fst (send_embed example_env example_ctx open_channel (Some (Str (''ff0000'' @ [CHR 0x0A]))))
       = Inr ()
   \<and> Channel_send open_channel None None
        (Some \<lparr>title = ''Rules'', description = ''Rules'', colour = Some 16711680\<rparr>)
       \<in> set (snd (send_embed example_env example_ctx open_channel
                     (Some (Str (''ff0000'' @ [CHR 0x0A])))))"
proof -
  have 1: "\<not> six_hex_digits ''zzzzzz''" by (simp add: six_hex_digits_def hex_class_def)
  have 2: "edit_embed example_env example_ctx staff_message (Some (Str ''zzzzzz''))
             = (Inl (CommandError could_not_edit), [])"
    by (simp add: edit_embed_def raise_def example_defs)
  have 3: "\<not> six_hex_digits (''ff0000'' @ [CHR 0x0A])" by (simp add: six_hex_digits_def)
  have m: "re_match (''ff0000'' @ [CHR 0x0A])" by (simp add: re_match_def hex_class_def)
  have "strip (''ff0000'' @ [CHR 0x0A]) = ''ff0000''"
    by (rule strip_hex_newline) (simp add: hex_class_def)
  then have i: "int_16 (''ff0000'' @ [CHR 0x0A]) = Some 16711680"
    by (simp add: int_16_def hex_class_def digit_value_def)
  have "send_embed example_env example_ctx open_channel (Some (Str (''ff0000'' @ [CHR 0x0A])))
          = send_embed example_env example_ctx open_channel (Some (Color 16711680))"
    using m i by (simp add: send_embed_def)
  then show ?thesis using 1 2 3 by (simp add: send_embed_example)
qed

text \<open>
  C4: for a colour string of six hexadecimal digits, \<^verbatim>\<open>send embed\<close> and \<^verbatim>\<open>edit embed\<close>
  run as they do for the native colour whose value is the base-16 value of the string,
  and the embed they deliver carries that value as its colour. The string \<open>ff0000\<close>
  yields 16711680.
\<close>

theorem color_string_value:
  assumes "six_hex_digits s"
  shows "send_embed E ctx ch (Some (Str s)) = send_embed E ctx ch (Some (Color (base16_value s)))
       \<and> edit_embed E ctx message (Some (Str s))
           = edit_embed E ctx message (Some (Color (base16_value s)))
       \<and> (\<forall>ch' c f e. Channel_send ch' c f e \<in> set (snd (send_embed E ctx ch (Some (Str s))))
            \<longrightarrow> (\<exists>e'. e = Some e' \<and> colour e' = Some (base16_value s)))
       \<and> (\<forall>m e f. Message_edit m (Some None) e f
                     \<in> set (snd (edit_embed E ctx message (Some (Str s))))
            \<longrightarrow> (\<exists>e'. e = Some (Some e') \<and> colour e' = Some (base16_value s)))"
proof (intro conjI allI impI)
  show "send_embed E ctx ch (Some (Str s)) = send_embed E ctx ch (Some (Color (base16_value s)))"
    using assms by (rule send_embed_str)
  show "edit_embed E ctx message (Some (Str s))
          = edit_embed E ctx message (Some (Color (base16_value s)))"
    using assms by (rule edit_embed_str)
next
  fix ch' c f e
  assume "Channel_send ch' c f e \<in> set (snd (send_embed E ctx ch (Some (Str s))))"
  from send_embed_delivery [OF this] show "\<exists>e'. e = Some e' \<and> colour e' = Some (base16_value s)"
    using assms by (auto simp: int_16_six)
next
  fix m e f
  assume "Message_edit m (Some None) e f \<in> set (snd (edit_embed E ctx message (Some (Str s))))"
  from edit_embed_delivery [OF this]
  show "\<exists>e'. e = Some (Some e') \<and> colour e' = Some (base16_value s)"
    using assms by (auto simp: int_16_six)
qed

theorem color_string_value_witness:
  "six_hex_digits ''ff0000''
   \<and> base16_value ''ff0000'' = 16711680
   \<and> send_embed example_env example_ctx open_channel (Some (Str ''ff0000''))
       = send_embed example_env example_ctx open_channel (Some (Color 16711680))
   \<and> edit_embed example_env example_ctx bot_message (Some (Str ''ff0000''))
       = edit_embed example_env example_ctx bot_message (Some (Color 16711680))
   \<and> Channel_send open_channel None None
        (Some \<lparr>title = ''Rules'', description = ''Rules'', colour = Some 16711680\<rparr>)
       \<in> set (snd (send_embed example_env example_ctx open_channel (Some (Str ''ff0000''))))
   \<and> Message_edit bot_message (Some None)
        (Some (Some \<lparr>title = ''Rules'', description = ''Rules'', colour = Some 16711680\<rparr>))
        (Some [])
       \<in> set (snd (edit_embed example_env example_ctx bot_message (Some (Str ''ff0000''))))"
proof -
  note v = color_string_value [OF six_hex_digits_ff0000, of example_env example_ctx
      open_channel bot_message, unfolded base16_value_ff0000]
  from v have s: "send_embed example_env example_ctx open_channel (Some (Str ''ff0000''))
       = send_embed example_env example_ctx open_channel (Some (Color 16711680))"
    and e: "edit_embed example_env example_ctx bot_message (Some (Str ''ff0000''))
       = edit_embed example_env example_ctx bot_message (Some (Color 16711680))"
    by blast+
  show ?thesis
    using six_hex_digits_ff0000 base16_value_ff0000 s e
    by (simp add: send_embed_example edit_embed_example)
qed

text \<open>
  C5: \<^verbatim>\<open>send text\<close> to a channel in which the bot may not send messages fails with
  \<^verbatim>\<open>could_not_send_message\<close> and issues no call at all: no status embed is posted and
  the invoker is not prompted.
\<close>

theorem send_text_without_permission:
  assumes "\<not> send_messages (permissions_for ch (me (channel_guild ch)))"
  shows "send_text E ctx ch = (Inl (CommandError could_not_send_message), [])"
  using assms by (simp add: send_text_def raise_def)

theorem send_text_without_permission_witness:
  "\<not> send_messages (permissions_for closed_channel (me (channel_guild closed_channel)))
   \<and> send_text example_env example_ctx closed_channel
       = (Inl (CommandError could_not_send_message), [])"
proof -
  have h: "\<not> send_messages (permissions_for closed_channel (me (channel_guild closed_channel)))"
    by (simp add: closed_channel_def)
  show ?thesis using h send_text_without_permission [OF h] by simp
qed

text \<open>
  C6: an invocation of \<^verbatim>\<open>edit text\<close> that has prompted the invoker, whose answer (the
  second call of the invocation) carries files, fails with \<^verbatim>\<open>cannot_edit_files\<close> and
  issues no edit, of the target message or of any other.
\<close>

theorem edit_text_rejects_files:
  assumes "Read_normal_message ch u b \<in> set (snd (edit_text E ctx message))"
    and "prompts E 1 = Inr (content, files)"
    and "files \<noteq> []"
  shows "fst (edit_text E ctx message) = Inl (CommandError cannot_edit_files)
       \<and> (\<forall>m c e f. Message_edit m c e f \<notin> set (snd (edit_text E ctx message)))"
  using assms by (auto simp add: edit_text_def act_defs split: if_splits sum.splits)

theorem edit_text_rejects_files_witness:
  "Read_normal_message open_channel 7 True
     \<in> set (snd (edit_text example_env example_ctx bot_message))
   \<and> prompts example_env 1 = Inr (''Rules'', [File ''rules.png''])
   \<and> [File ''rules.png''] \<noteq> []
   \<and> fst (edit_text example_env example_ctx bot_message) = Inl (CommandError cannot_edit_files)
   \<and> Message_edit bot_message (Some (Some ''Rules'')) (Some None) None
       \<notin> set (snd (edit_text example_env example_ctx bot_message))"
proof -
  have r: "Read_normal_message open_channel 7 True
             \<in> set (snd (edit_text example_env example_ctx bot_message))"
    by (simp add: edit_text_def act_defs example_env_def example_ctx_def bot_message_def)
  have p: "prompts example_env 1 = Inr (''Rules'', [File ''rules.png''])"
    by (simp add: example_env_def)
  have f: "[File ''rules.png''] \<noteq> []" by simp
  from edit_text_rejects_files [OF r p f] r p show ?thesis by blast
qed

text \<open>
  C9: in \<^verbatim>\<open>edit embed\<close> the author of the message is checked before the colour. On a
  message that is not the bot's the command fails with \<^verbatim>\<open>could_not_edit\<close> whatever the
  colour argument, a string that is no colour included, and does not fail with
  \<^verbatim>\<open>invalid_color\<close>.
\<close>

theorem edit_embed_author_before_color:
  assumes "author message \<noteq> bot_user E"
  shows "fst (edit_embed E ctx message color) = Inl (CommandError could_not_edit)
       \<and> fst (edit_embed E ctx message color) \<noteq> Inl (CommandError invalid_color)"
  using assms by (simp add: edit_embed_def raise_def)

theorem edit_embed_author_before_color_witness:
  "author staff_message \<noteq> bot_user example_env
   \<and> \<not> re_match ''zzzzzz''
   \<and> fst (edit_embed example_env example_ctx staff_message (Some (Str ''zzzzzz'')))
       = Inl (CommandError could_not_edit)
   \<and> fst (edit_embed example_env example_ctx staff_message (Some (Str ''zzzzzz'')))
       \<noteq> Inl (CommandError invalid_color)"
proof -
  have h: "author staff_message \<noteq> bot_user example_env" by (simp add: example_defs)
  have n: "\<not> re_match ''zzzzzz''" by (simp add: re_match_def hex_class_def)
  from edit_embed_author_before_color [OF h, of example_ctx "Some (Str ''zzzzzz'')"] h n
  show ?thesis by blast
qed

text \<open>
  C10: in \<^verbatim>\<open>send embed\<close> and \<^verbatim>\<open>edit embed\<close> the files attached to the two answers are
  dropped. An invocation runs, call for call and to the same result, as the invocation
  in which the invoker attached nothing; and the call that delivers the embed carries
  the text of the first answer as title, the text of the second as description, and no
  file.
\<close>

theorem embed_prompt_files_discarded:
  "send_embed E ctx ch color = send_embed (with_attachments (\<lambda>i. []) E) ctx ch color
   \<and> edit_embed E ctx message color
       = edit_embed (with_attachments (\<lambda>i. []) E) ctx message color
   \<and> (\<forall>ch' c f e. Channel_send ch' c f e \<in> set (snd (send_embed E ctx ch color)) \<longrightarrow>
        c = None \<and> f = None \<and>
        (\<exists>heading x body y col. prompts E 1 = Inr (heading, x) \<and> prompts E 3 = Inr (body, y)
           \<and> e = Some \<lparr>title = heading, description = body, colour = col\<rparr>))
   \<and> (\<forall>m e f. Message_edit m (Some None) e f \<in> set (snd (edit_embed E ctx message color)) \<longrightarrow>
        m = message \<and> f = Some [] \<and>
        (\<exists>heading x body y col. prompts E 1 = Inr (heading, x) \<and> prompts E 3 = Inr (body, y)
           \<and> e = Some (Some \<lparr>title = heading, description = body, colour = col\<rparr>)))"
proof (intro conjI allI impI)
  show "send_embed E ctx ch color = send_embed (with_attachments (\<lambda>i. []) E) ctx ch color"
    by (simp only: send_embed_with_attachments)
  show "edit_embed E ctx message color
          = edit_embed (with_attachments (\<lambda>i. []) E) ctx message color"
    by (simp only: edit_embed_with_attachments)
next
  fix ch' c f e
  assume "Channel_send ch' c f e \<in> set (snd (send_embed E ctx ch color))"
  from send_embed_delivery [OF this]
  show "c = None" and "f = None"
    and "\<exists>heading x body y col. prompts E 1 = Inr (heading, x) \<and> prompts E 3 = Inr (body, y)
           \<and> e = Some \<lparr>title = heading, description = body, colour = col\<rparr>"
    by blast+
next
  fix m e f
  assume "Message_edit m (Some None) e f \<in> set (snd (edit_embed E ctx message color))"
  from edit_embed_delivery [OF this]
  show "m = message" and "f = Some []"
    and "\<exists>heading x body y col. prompts E 1 = Inr (heading, x) \<and> prompts E 3 = Inr (body, y)
           \<and> e = Some (Some \<lparr>title = heading, description = body, colour = col\<rparr>)"
    by blast+
qed

theorem embed_prompt_files_discarded_witness:
  "prompts example_env 1 = Inr (''Rules'', [File ''rules.png''])
   \<and> prompts example_env 3 = Inr (''Rules'', [File ''rules.png''])
   \<and> prompts (with_attachments (\<lambda>i. []) example_env) 1 = Inr (''Rules'', [])
   \<and> send_embed example_env example_ctx open_channel (Some (Color 255))
       = send_embed (with_attachments (\<lambda>i. []) example_env) example_ctx open_channel
           (Some (Color 255))
   \<and> edit_embed example_env example_ctx bot_message (Some (Color 255))
       = edit_embed (with_attachments (\<lambda>i. []) example_env) example_ctx bot_message
           (Some (Color 255))
   \<and> Channel_send open_channel None None
        (Some \<lparr>title = ''Rules'', description = ''Rules'', colour = Some 255\<rparr>)
       \<in> set (snd (send_embed example_env example_ctx open_channel (Some (Color 255))))"
proof -
  have p: "prompts example_env 1 = Inr (''Rules'', [File ''rules.png''])
           \<and> prompts example_env 3 = Inr (''Rules'', [File ''rules.png''])
           \<and> prompts (with_attachments (\<lambda>i. []) example_env) 1 = Inr (''Rules'', [])"
    by (simp add: example_env_def with_attachments_def)
  have c: "Channel_send open_channel None None
        (Some \<lparr>title = ''Rules'', description = ''Rules'', colour = Some 255\<rparr>)
       \<in> set (snd (send_embed example_env example_ctx open_channel (Some (Color 255))))"
    by (simp add: send_embed_example)
  from embed_prompt_files_discarded
    [of example_env example_ctx open_channel "Some (Color 255)" bot_message] p c
  show ?thesis by blast
qed

section \<open>Properties of the warning record\<close>

lemma well_formed_empty:
  "well_formed \<lparr>objects = [], pending = [], stored = [], autoincrement = n\<rparr>"
  by (simp add: well_formed_def)

lemma well_formed_example: "well_formed example_state"
  by (simp add: well_formed_def example_state_def)

lemma fresh_not_pending: "well_formed s \<Longrightarrow> length (objects s) \<notin> set (pending s)"
  by (auto simp: well_formed_def list_all_iff)

lemma create_eq:
  "well_formed s \<Longrightarrow>
   create now member moderator reason s =
     (length (objects s),
      s\<lparr>objects := objects s @
           [\<lparr>warn_id = None, warn_member = Some member, warn_mod = Some moderator,
             warn_timestamp = Some now, warn_reason = Some reason\<rparr>],
        pending := pending s @ [length (objects s)]\<rparr>)"
  by (simp add: create_def Warn_def db_add_def fresh_not_pending)

lemma create_well_formed:
  "well_formed s \<Longrightarrow> well_formed (snd (create now member moderator reason s))"
  by (auto simp: create_eq well_formed_def list_all_iff)

lemma commit_well_formed: "well_formed (commit s)"
  by (simp add: commit_def well_formed_def)

lemma create_twice:
  assumes "well_formed s"
  shows "snd (create now member moderator reason (snd (create now member moderator reason s))) =
     s\<lparr>objects := objects s @
           [\<lparr>warn_id = None, warn_member = Some member, warn_mod = Some moderator,
             warn_timestamp = Some now, warn_reason = Some reason\<rparr>,
            \<lparr>warn_id = None, warn_member = Some member, warn_mod = Some moderator,
             warn_timestamp = Some now, warn_reason = Some reason\<rparr>],
        pending := pending s @ [length (objects s), Suc (length (objects s))]\<rparr>"
proof -
  let ?w = "\<lparr>warn_id = None, warn_member = Some member, warn_mod = Some moderator,
             warn_timestamp = Some now, warn_reason = Some reason\<rparr>"
  let ?s1 = "s\<lparr>objects := objects s @ [?w], pending := pending s @ [length (objects s)]\<rparr>"
  have 1: "create now member moderator reason s = (length (objects s), ?s1)"
    by (rule create_eq [OF assms])
  have w: "well_formed ?s1"
    using create_well_formed [OF assms, of now member moderator reason] by (simp add: 1)
  show ?thesis by (simp add: 1 create_eq [OF w])
qed

lemma insert_rows_append: "insert_rows (xs @ ys) s = insert_rows ys (insert_rows xs s)"
  by (induction xs arbitrary: s) (simp_all add: Let_def)

text \<open>
  Inserting objects that lie below position \<open>k\<close> of the store leaves the objects from
  \<open>k\<close> on as they are and draws one key for each.
\<close>

lemma insert_rows_below:
  "list_all (\<lambda>r. r < k) rs \<Longrightarrow> k \<le> length (objects s) \<Longrightarrow>
     length (objects (insert_rows rs s)) = length (objects s)
     \<and> drop k (objects (insert_rows rs s)) = drop k (objects s)
     \<and> autoincrement (insert_rows rs s) = autoincrement s + int (length rs)
     \<and> pending (insert_rows rs s) = pending s"
proof (induction rs arbitrary: s)
  case Nil
  then show ?case by simp
next
  case (Cons r rs)
  let ?w = "(objects s ! r)\<lparr>warn_id := Some (autoincrement s)\<rparr>"
  let ?s = "s\<lparr>objects := (objects s)[r := ?w], stored := stored s @ [?w],
               autoincrement := autoincrement s + 1\<rparr>"
  from Cons.prems have r: "r < k" and rs: "list_all (\<lambda>r. r < k) rs" by simp_all
  with Cons.prems have l: "r < length (objects s)" by simp
  have k: "k \<le> length (objects ?s)" using Cons.prems by simp
  from Cons.IH [OF rs k] l r show ?case by (simp add: Let_def)
qed

lemma commit_two_fresh:
  assumes wf: "well_formed s"
    and s2: "s2 = s\<lparr>objects := objects s @ [w, w],
                     pending := pending s @ [length (objects s), Suc (length (objects s))]\<rparr>"
  shows "objects (commit s2) ! length (objects s)
           = w\<lparr>warn_id := Some (autoincrement s + int (length (pending s)))\<rparr>
       \<and> objects (commit s2) ! Suc (length (objects s))
           = w\<lparr>warn_id := Some (autoincrement s + int (length (pending s)) + 1)\<rparr>
       \<and> stored (commit s2) = stored (insert_rows (pending s) s2) @
             [w\<lparr>warn_id := Some (autoincrement s + int (length (pending s)))\<rparr>,
              w\<lparr>warn_id := Some (autoincrement s + int (length (pending s)) + 1)\<rparr>]
       \<and> pending (commit s2) = []"
proof -
  define k where "k = length (objects s)"
  define t where "t = insert_rows (pending s) s2"
  have p: "list_all (\<lambda>r. r < k) (pending s)" using wf by (simp add: well_formed_def k_def)
  have le: "k \<le> length (objects s2)" by (simp add: s2 k_def)
  from insert_rows_below [OF p le]
  have len: "length (objects t) = k + 2" and dr: "drop k (objects t) = [w, w]"
    and au: "autoincrement t = autoincrement s + int (length (pending s))"
    by (simp_all add: t_def s2 k_def)
  have n0: "objects t ! k = w"
    using dr len by (metis Cons_nth_drop_Suc list.inject less_add_same_cancel1 zero_less_numeral)
  have "drop (Suc k) (objects t) = [w]"
    using dr len by (metis Cons_nth_drop_Suc list.inject less_add_same_cancel1 zero_less_numeral)
  then have n1: "objects t ! Suc k = w"
    using len by (metis Cons_nth_drop_Suc list.inject add_2_eq_Suc' lessI)
  have c: "commit s2 = (insert_rows [k, Suc k] t)\<lparr>pending := []\<rparr>"
    by (simp add: commit_def s2 insert_rows_append t_def k_def)
  show ?thesis unfolding c k_def [symmetric]
    using len n0 n1 au by (simp add: Let_def t_def [symmetric])
qed

subsection \<open>The claims about the warning record\<close>

text \<open>
  C7: \<^verbatim>\<open>create(member, mod, reason)\<close> always returns: it has no failing branch. The
  object it returns is new, its \<^verbatim>\<open>member\<close>, \<^verbatim>\<open>mod\<close> and \<^verbatim>\<open>reason\<close> are the arguments,
  its \<^verbatim>\<open>timestamp\<close> is the time of the call and so not null, and its \<^verbatim>\<open>id\<close> is unset. The
  state changes by this object and by one pending insert, of this object: the objects
  there before, the other pending inserts, the stored rows and the key counter are as
  they were, so nothing is committed.
\<close>

theorem create_one_pending_insert:
  assumes "well_formed s"
  shows "\<exists>row s'. create now member moderator reason s = (row, s')
       \<and> row = length (objects s)
       \<and> objects s' = objects s @ [objects s' ! row]
       \<and> objects s' ! row =
           \<lparr>warn_id = None, warn_member = Some member, warn_mod = Some moderator,
            warn_timestamp = Some now, warn_reason = Some reason\<rparr>
       \<and> row \<notin> set (pending s)
       \<and> pending s' = pending s @ [row]
       \<and> stored s' = stored s
       \<and> autoincrement s' = autoincrement s"
  using assms by (simp add: create_eq fresh_not_pending)

theorem create_one_pending_insert_witness:
  "well_formed example_state
   \<and> fst (create 1234 42 7 ''spam'' example_state) = 1
   \<and> objects (snd (create 1234 42 7 ''spam'' example_state)) ! 1 =
       \<lparr>warn_id = None, warn_member = Some 42, warn_mod = Some 7,
        warn_timestamp = Some 1234, warn_reason = Some ''spam''\<rparr>
   \<and> pending (snd (create 1234 42 7 ''spam'' example_state)) = [0, 1]
   \<and> stored (snd (create 1234 42 7 ''spam'' example_state)) = []"
  using create_one_pending_insert [OF well_formed_example, of 1234 42 7 "''spam''"]
    well_formed_example
  by (auto simp add: example_state_def)

text \<open>
  C8: two calls of \<^verbatim>\<open>create\<close> with the same arguments, even at the same time, return
  two different objects with equal columns, and both are pending afterwards, one insert
  each. A commit gives each of them a key, and the two keys differ; both become rows.
\<close>

theorem create_twice_two_records:
  assumes "well_formed s"
  shows "\<exists>r1 s1 r2 s2 i j rows.
         create now member moderator reason s = (r1, s1)
       \<and> create now member moderator reason s1 = (r2, s2)
       \<and> r1 \<noteq> r2
       \<and> pending s2 = pending s @ [r1, r2]
       \<and> objects s2 ! r1 = objects s2 ! r2
       \<and> warn_id (objects s2 ! r1) = None
       \<and> warn_id (objects (commit s2) ! r1) = Some i
       \<and> warn_id (objects (commit s2) ! r2) = Some j
       \<and> i \<noteq> j
       \<and> stored (commit s2) =
           rows @ [(objects s2 ! r1)\<lparr>warn_id := Some i\<rparr>, (objects s2 ! r2)\<lparr>warn_id := Some j\<rparr>]"
proof -
  let ?w = "\<lparr>warn_id = None, warn_member = Some member, warn_mod = Some moderator,
             warn_timestamp = Some now, warn_reason = Some reason\<rparr>"
  let ?k = "length (objects s)"
  let ?s1 = "s\<lparr>objects := objects s @ [?w], pending := pending s @ [?k]\<rparr>"
  let ?s2 = "s\<lparr>objects := objects s @ [?w, ?w], pending := pending s @ [?k, Suc ?k]\<rparr>"
  let ?i = "autoincrement s + int (length (pending s))"
  have 1: "create now member moderator reason s = (?k, ?s1)"
    by (rule create_eq [OF assms])
  have w: "well_formed ?s1"
    using create_well_formed [OF assms, of now member moderator reason] by (simp add: 1)
  have 2: "create now member moderator reason ?s1 = (Suc ?k, ?s2)"
    by (simp add: create_eq [OF w])
  have o: "objects ?s2 ! ?k = ?w" "objects ?s2 ! Suc ?k = ?w"
    by (simp_all add: nth_append)
  from commit_two_fresh [OF assms refl, of ?w]
  have c: "objects (commit ?s2) ! ?k = ?w\<lparr>warn_id := Some ?i\<rparr>"
    "objects (commit ?s2) ! Suc ?k = ?w\<lparr>warn_id := Some (?i + 1)\<rparr>"
    "stored (commit ?s2) = stored (insert_rows (pending s) ?s2) @
        [?w\<lparr>warn_id := Some ?i\<rparr>, ?w\<lparr>warn_id := Some (?i + 1)\<rparr>]"
    by simp_all
  show ?thesis
    apply (rule exI [of _ ?k], rule exI [of _ ?s1], rule exI [of _ "Suc ?k"])
    apply (rule exI [of _ ?s2], rule exI [of _ ?i], rule exI [of _ "?i + 1"])
    apply (rule exI [of _ "stored (insert_rows (pending s) ?s2)"])
    apply (simp only: 1 2 o c)
    apply simp
    done
qed

theorem create_twice_two_records_witness:
  "well_formed example_state
   \<and> pending example_state = [0]
   \<and> (case create 1234 42 7 ''spam'' example_state of (r1, s1) \<Rightarrow>
        case create 1234 42 7 ''spam'' s1 of (r2, s2) \<Rightarrow>
          r1 \<noteq> r2 \<and> pending s2 = [0, r1, r2]
          \<and> objects s2 ! r1 = objects s2 ! r2
          \<and> warn_id (objects (commit s2) ! r1) \<noteq> None
          \<and> warn_id (objects (commit s2) ! r2) \<noteq> None
          \<and> warn_id (objects (commit s2) ! r1) \<noteq> warn_id (objects (commit s2) ! r2))"
proof -
  have p: "pending example_state = [0]" by (simp add: example_state_def)
  from create_twice_two_records [OF well_formed_example, of 1234 42 7 "''spam''"]
  obtain r1 s1 r2 s2 i j where
    "create 1234 42 7 ''spam'' example_state = (r1, s1)"
    "create 1234 42 7 ''spam'' s1 = (r2, s2)" "r1 \<noteq> r2"
    "pending s2 = pending example_state @ [r1, r2]"
    "objects s2 ! r1 = objects s2 ! r2"
    "warn_id (objects (commit s2) ! r1) = Some i"
    "warn_id (objects (commit s2) ! r2) = Some j" "i \<noteq> j"
    by blast
  then show ?thesis using well_formed_example by (simp add: p)
qed

end
